theory Spec2Isabelle
  imports Complex_Main "HOL-Library.Multiset"
begin

section \<open>The RSP moving-average bot (\<open>main.py\<close>)\<close>

text \<open>
  The program polls a market-data API for daily bars, reduces the closing prices to a
  trailing moving average, classifies the latest close against it and writes the label
  into one spreadsheet cell, in an endless loop with a fixed sleep.

  Conventions of the embedding.
  \<^item> Python's \<open>float\<close> is the IEEE 754 binary64 format, modelled by the type \<open>f64\<close> below
    with its rounding (to nearest, ties to even), infinities, NaN and signed zeros.
  \<^item> A bar is a dictionary; the model keeps, for each of the six keys the API documents,
    whether the key is present (\<open>Some\<close>) or absent (\<open>None\<close>). The value under \<open>"c"\<close> is
    kept as far as \<open>float()\<close> tells values apart. A timestamp is a value of a linearly
    ordered type \<open>'t\<close> whose order is the one Python's \<open><\<close> computes on them.
  \<^item> An exception is a value of \<open>py_error\<close>; a function that can raise returns
    \<open>py_error + 'a\<close> with \<open>Inl\<close> the exception.
  \<^item> Effects (logger calls at level INFO and above, the HTTP request, the reads and
    writes of the sheet, the sleep) are returned as the list of effects of the call, in
    the order the source performs them. \<open>logger.debug\<close> calls are left out: they write
    nothing at the default level and never raise.
\<close>

subsection \<open>Exceptions\<close>

datatype py_error =
    RuntimeError
  | ValueError
  | ZeroDivisionError
  | OverflowError
  | KeyError
  | TypeError
  | LibraryError string
  | KeyboardInterrupt
  | SystemExit

text \<open>
  \<open>LibraryError\<close> stands for an exception class of \<open>requests\<close>, \<open>gspread\<close>, \<open>json\<close> or
  \<open>google.oauth2\<close>, all of them subclasses of \<open>Exception\<close>. \<open>KeyboardInterrupt\<close> and
  \<open>SystemExit\<close> derive from \<open>BaseException\<close> only: a clause \<open>except Exception\<close> lets
  them pass.
\<close>

fun is_Exception :: "py_error \<Rightarrow> bool" where
  "is_Exception KeyboardInterrupt = False"
| "is_Exception SystemExit = False"
| "is_Exception _ = True"

subsection \<open>Binary64 floating point\<close>

text \<open>
  \<open>Finite s m e\<close> is the number \<open>(-1)\<^sup>s \<sqdot> m \<sqdot> 2\<^sup>e\<close>. The operations below accept any such
  triple as an exact number and return doubles in normal form: a mantissa from \<open>2\<^sup>5\<^sup>2\<close>
  up to \<open>2\<^sup>5\<^sup>3 - 1\<close> with an exponent from \<open>-1074\<close> to \<open>971\<close>, a smaller mantissa with the
  exponent \<open>-1074\<close> (subnormal), or \<open>Finite s 0 0\<close> (zero, with its sign).
\<close>

datatype f64 = Finite bool nat int | Infinity bool | NaN

text \<open>The number of binary digits of a natural number.\<close>

fun bitlen :: "nat \<Rightarrow> nat" where
  "bitlen n = (if n = 0 then 0 else Suc (bitlen (n div 2)))"

declare bitlen.simps [simp del]

text \<open>
  The quotient \<open>q\<close> with remainder \<open>r\<close> of a division by \<open>d\<close>, rounded to the nearest
  integer, a tie going to the even one.
\<close>

definition round_from :: "nat \<Rightarrow> nat \<Rightarrow> nat \<Rightarrow> nat" where
  "round_from q r d =
     (if 2 * r < d then q
      else if d < 2 * r then q + 1
      else if even q then q else q + 1)"

definition round_half_even :: "nat \<Rightarrow> nat \<Rightarrow> nat" where
  "round_half_even n d = round_from (n div d) (n mod d) d"

text \<open>
  The integer part of the binary logarithm of \<open>n / d\<close> (both positive): the difference
  \<open>l\<close> of the bit lengths, or one less.
\<close>

definition floor_log2_near :: "nat \<Rightarrow> nat \<Rightarrow> int \<Rightarrow> int" where
  "floor_log2_near n d l =
     (if (if 0 \<le> l then d * 2 ^ nat l \<le> n else d \<le> n * 2 ^ nat (- l)) then l else l - 1)"

definition floor_log2 :: "nat \<Rightarrow> nat \<Rightarrow> int" where
  "floor_log2 n d = floor_log2_near n d (int (bitlen n) - int (bitlen d))"

text \<open>
  \<open>f64_round s n d e\<close> is the double nearest to \<open>(-1)\<^sup>s \<sqdot> (n / d) \<sqdot> 2\<^sup>e\<close>: the number is
  scaled to the exponent \<open>p\<close> of its 53-digit mantissa (at least \<open>-1074\<close>), the mantissa is
  rounded, a mantissa that reaches \<open>2\<^sup>5\<^sup>3\<close> moves to the next exponent, and a result from
  \<open>2\<^sup>1\<^sup>0\<^sup>2\<^sup>4\<close> on is an infinity.
\<close>

definition f64_pack :: "bool \<Rightarrow> nat \<Rightarrow> int \<Rightarrow> f64" where
  "f64_pack s m p =
     (if m = 2 ^ 53 then (if 971 < p + 1 then Infinity s else Finite s (2 ^ 52) (p + 1))
      else if 971 < p then Infinity s
      else if m = 0 then Finite s 0 0
      else Finite s m p)"

definition f64_round_at :: "bool \<Rightarrow> nat \<Rightarrow> nat \<Rightarrow> int \<Rightarrow> int \<Rightarrow> f64" where
  "f64_round_at s n d e p =
     f64_pack s
       (if p \<le> e then round_half_even (n * 2 ^ nat (e - p)) d
        else round_half_even n (d * 2 ^ nat (p - e)))
       p"

definition f64_round :: "bool \<Rightarrow> nat \<Rightarrow> nat \<Rightarrow> int \<Rightarrow> f64" where
  "f64_round s n d e =
     (if n = 0 then Finite s 0 0
      else f64_round_at s n d e (max (floor_log2 n d + e - 52) (- 1074)))"

text \<open>
  A decimal literal such as \<open>1.10\<close> is the double nearest to the fraction it denotes,
  here \<open>f64_lit 110 100\<close>; \<open>float(i)\<close> of an integer is the double nearest to it.
\<close>

definition f64_lit :: "nat \<Rightarrow> nat \<Rightarrow> f64" where
  "f64_lit n d = f64_round False n d 0"

definition f64_of_int :: "int \<Rightarrow> f64" where
  "f64_of_int i = f64_round (i < 0) (nat \<bar>i\<bar>) 1 0"

fun f64_neg :: "f64 \<Rightarrow> f64" where
  "f64_neg (Finite s m e) = Finite (\<not> s) m e"
| "f64_neg (Infinity s) = Infinity (\<not> s)"
| "f64_neg NaN = NaN"

definition signed :: "bool \<Rightarrow> nat \<Rightarrow> int" where
  "signed s m = (if s then - int m else int m)"

text \<open>
  The double nearest to \<open>t \<sqdot> 2\<^sup>e\<close>; an exact zero takes the sign \<open>zs\<close>.
\<close>

definition f64_of_signed :: "int \<Rightarrow> bool \<Rightarrow> int \<Rightarrow> f64" where
  "f64_of_signed t zs e =
     (if t = 0 then Finite zs 0 0 else f64_round (t < 0) (nat \<bar>t\<bar>) 1 e)"

text \<open>
  Addition brings both numbers to the smaller exponent and rounds the exact sum. A sum
  that is exactly zero is \<open>+0\<close>, unless both summands are \<open>-0\<close>.
\<close>

fun f64_add :: "f64 \<Rightarrow> f64 \<Rightarrow> f64" where
  "f64_add (Finite s1 m1 e1) (Finite s2 m2 e2) =
     f64_of_signed
       (signed s1 m1 * 2 ^ nat (e1 - min e1 e2) + signed s2 m2 * 2 ^ nat (e2 - min e1 e2))
       (s1 \<and> s2) (min e1 e2)"
| "f64_add (Finite s1 m1 e1) (Infinity s2) = Infinity s2"
| "f64_add (Infinity s1) (Finite s2 m2 e2) = Infinity s1"
| "f64_add (Infinity s1) (Infinity s2) = (if s1 = s2 then Infinity s1 else NaN)"
| "f64_add NaN y = NaN"
| "f64_add x NaN = NaN"

definition f64_sub :: "f64 \<Rightarrow> f64 \<Rightarrow> f64" where
  "f64_sub x y = f64_add x (f64_neg y)"

fun f64_mul :: "f64 \<Rightarrow> f64 \<Rightarrow> f64" where
  "f64_mul (Finite s1 m1 e1) (Finite s2 m2 e2) = f64_round (s1 \<noteq> s2) (m1 * m2) 1 (e1 + e2)"
| "f64_mul (Finite s1 m1 e1) (Infinity s2) = (if m1 = 0 then NaN else Infinity (s1 \<noteq> s2))"
| "f64_mul (Infinity s1) (Finite s2 m2 e2) = (if m2 = 0 then NaN else Infinity (s1 \<noteq> s2))"
| "f64_mul (Infinity s1) (Infinity s2) = Infinity (s1 \<noteq> s2)"
| "f64_mul NaN y = NaN"
| "f64_mul x NaN = NaN"

text \<open>
  Division by a zero is given its IEEE value here; Python raises before it divides
  (\<open>py_truediv\<close> below).
\<close>

fun f64_div :: "f64 \<Rightarrow> f64 \<Rightarrow> f64" where
  "f64_div (Finite s1 m1 e1) (Finite s2 m2 e2) =
     (if m2 = 0 then (if m1 = 0 then NaN else Infinity (s1 \<noteq> s2))
      else f64_round (s1 \<noteq> s2) m1 m2 (e1 - e2))"
| "f64_div (Finite s1 m1 e1) (Infinity s2) = Finite (s1 \<noteq> s2) 0 0"
| "f64_div (Infinity s1) (Finite s2 m2 e2) = Infinity (s1 \<noteq> s2)"
| "f64_div (Infinity s1) (Infinity s2) = NaN"
| "f64_div NaN y = NaN"
| "f64_div x NaN = NaN"

fun f64_is_zero :: "f64 \<Rightarrow> bool" where
  "f64_is_zero (Finite s m e) = (m = 0)"
| "f64_is_zero _ = False"

text \<open>Comparisons: both zeros are equal, and every comparison with NaN is false.\<close>

fun f64_less :: "f64 \<Rightarrow> f64 \<Rightarrow> bool" where
  "f64_less (Finite s1 m1 e1) (Finite s2 m2 e2) =
     (signed s1 m1 * 2 ^ nat (e1 - min e1 e2) < signed s2 m2 * 2 ^ nat (e2 - min e1 e2))"
| "f64_less (Finite s1 m1 e1) (Infinity s2) = (\<not> s2)"
| "f64_less (Infinity s1) (Finite s2 m2 e2) = s1"
| "f64_less (Infinity s1) (Infinity s2) = (s1 \<and> \<not> s2)"
| "f64_less NaN y = False"
| "f64_less x NaN = False"

fun f64_less_eq :: "f64 \<Rightarrow> f64 \<Rightarrow> bool" where
  "f64_less_eq (Finite s1 m1 e1) (Finite s2 m2 e2) =
     (signed s1 m1 * 2 ^ nat (e1 - min e1 e2) \<le> signed s2 m2 * 2 ^ nat (e2 - min e1 e2))"
| "f64_less_eq (Finite s1 m1 e1) (Infinity s2) = (\<not> s2)"
| "f64_less_eq (Infinity s1) (Finite s2 m2 e2) = s1"
| "f64_less_eq (Infinity s1) (Infinity s2) = (s1 \<or> \<not> s2)"
| "f64_less_eq NaN y = False"
| "f64_less_eq x NaN = False"

definition f64_greater :: "f64 \<Rightarrow> f64 \<Rightarrow> bool" where
  "f64_greater x y = f64_less y x"

definition f64_greater_eq :: "f64 \<Rightarrow> f64 \<Rightarrow> bool" where
  "f64_greater_eq x y = f64_less_eq y x"

text \<open>The real number a finite double stands for.\<close>

definition f64_value :: "f64 \<Rightarrow> real" where
  "f64_value x =
     (case x of
        Finite s m e \<Rightarrow>
          (if 0 \<le> e then real_of_int (signed s m) * 2 ^ nat e
           else real_of_int (signed s m) / 2 ^ nat (- e))
      | _ \<Rightarrow> 0)"

subsection \<open>Values and bars\<close>

text \<open>
  A value of the decoded JSON body, as far as \<open>float()\<close> tells values apart. A JSON
  number without fraction or exponent is decoded as a Python \<open>int\<close>, any other number as
  a \<open>float\<close>. A string is kept with the double \<open>float()\<close> reads in it, if it reads one
  (\<open>JString None\<close> is a string such as \<open>"n/a"\<close>).
\<close>

datatype json_value =
    JNull
  | JBool bool
  | JInt int
  | JFloat f64
  | JString "f64 option"
  | JArray
  | JObject

record 't bar =
  bar_t :: "'t option"
  bar_o :: "json_value option"
  bar_h :: "json_value option"
  bar_l :: "json_value option"
  bar_c :: "json_value option"
  bar_v :: "json_value option"

text \<open>
  \<open>bar_c b = None\<close> says that the key \<open>"c"\<close> is absent. For the timestamp the source
  only ever evaluates \<open>b.get("t")\<close>, which is \<open>None\<close> for an absent key and for the value
  \<open>null\<close> alike: \<open>bar_t b = None\<close> stands for both.
\<close>

subsection \<open>Effects\<close>

datatype log_level = INFO | WARNING | ERROR

datatype log_msg =
    BotStarting
  | StartingCycle
  | RequestingBars int string
  | ErrorResponse string
  | ReceivedBars nat
  | NoBarsReturned
  | OnlyClosesAvailable nat int
  | ComputedMA int f64
  | Classification f64 f64 f64 string
  | NoBarsSkipping
  | LatestBar f64
  | PreviousValue "string option"
  | UpdatingCell string
  | FinishedCycle string f64
  | UnexpectedError py_error
  | SleepingFor int

datatype effect =
    Log log_level log_msg
  | HttpGet string int
  | AcellRead string
  | CellUpdate string string
  | Sleep int

text \<open>
  \<open>HttpGet symbol limit\<close> is the call \<open>requests.get\<close> for the bars of \<open>symbol\<close>,
  \<open>AcellRead cell\<close> the call \<open>ws.acell(cell)\<close>, \<open>CellUpdate cell value\<close> the call
  \<open>ws.update(cell, value)\<close> and \<open>Sleep n\<close> a call \<open>time.sleep(n)\<close> that has passed the
  checks of its argument. An effect records that the call was issued, whatever it
  answered.
\<close>

subsection \<open>Configuration and the outside world\<close>

text \<open>
  The module-level settings the functions read. They are computed once, when the module
  is loaded; window and interval are the results of \<open>int(\<dots>)\<close>, any integers.
\<close>

record config =
  alpaca_symbol :: string
  ma_window :: int
  target_cell :: string
  refresh_interval_seconds :: int

text \<open>
  What \<open>data.get("bars", [])\<close> finds in the decoded body: no such key, the JSON value
  \<open>null\<close>, or a list of bars (JSON objects).
\<close>

datatype 'b bars_field = BarsAbsent | BarsNull | BarsList "'b list"

record 't http_response =
  resp_status :: nat
  resp_text :: string
  resp_json :: "py_error + 't bar bars_field"

text \<open>
  The answers of the outside world during one iteration of the loop: the environment
  variables, and for each external call whether it raises. \<open>sheets_auth\<close> covers
  \<open>json.loads\<close>, \<open>Credentials.from_service_account_info\<close> and \<open>gspread.authorize\<close>;
  \<open>sheets_open\<close> covers \<open>client.open\<close> and \<open>sh.worksheet\<close>; \<open>http_get\<close> is
  \<open>requests.get\<close>; \<open>ws_acell\<close> and \<open>ws_update\<close> are the two calls on the worksheet;
  \<open>os_sleep\<close> is what the sleep of the operating system raises, if anything: an
  interrupt, or the refusal of a duration the platform cannot represent.
\<close>

record 't cycle_env =
  google_sa_json :: "string option"
  sheets_auth :: "py_error option"
  sheets_open :: "py_error option"
  alpaca_key :: "string option"
  alpaca_secret :: "string option"
  http_get :: "py_error + 't http_response"
  ws_acell :: "py_error + string option"
  ws_update :: "py_error option"
  os_sleep :: "py_error option"

subsection \<open>Python primitives used by the analyzer\<close>

text \<open>
  \<open>float(i)\<close> of an \<open>int\<close>, also where an \<open>int\<close> meets a \<open>float\<close> in arithmetic: the
  nearest double, \<open>OverflowError\<close> when that is beyond the finite doubles.
\<close>

fun f64_is_finite :: "f64 \<Rightarrow> bool" where
  "f64_is_finite (Finite s m e) = True"
| "f64_is_finite _ = False"

definition int_to_float :: "int \<Rightarrow> py_error + f64" where
  "int_to_float i =
     (if f64_is_finite (f64_of_int i) then Inr (f64_of_int i) else Inl OverflowError)"

text \<open>\<open>float(v)\<close> of a decoded JSON value.\<close>

fun py_float :: "json_value \<Rightarrow> py_error + f64" where
  "py_float JNull = Inl TypeError"
| "py_float (JBool b) = Inr (f64_of_int (if b then 1 else 0))"
| "py_float (JInt i) = int_to_float i"
| "py_float (JFloat x) = Inr x"
| "py_float (JString None) = Inl ValueError"
| "py_float (JString (Some x)) = Inr x"
| "py_float JArray = Inl TypeError"
| "py_float JObject = Inl TypeError"

text \<open>\<open>xs[start:]\<close>: a negative start counts from the end, and both ends clamp.\<close>

definition py_slice_from :: "int \<Rightarrow> 'a list \<Rightarrow> 'a list" where
  "py_slice_from start xs =
     (let n = int (length xs);
          s = (if start < 0 then max (start + n) 0 else min start n)
      in drop (nat s) xs)"

text \<open>
  \<open>sum(xs)\<close> of a list of floats: starts from the \<open>int\<close> 0 and adds from the left, each
  addition rounded (CPython before 3.12; later versions compensate the rounding errors
  of the additions). The sum of no floats is the \<open>int\<close> 0; the first addition \<open>0 + x\<close>
  is the float addition \<open>0.0 + x\<close>.
\<close>

datatype py_number = PyInt int | PyFloat f64

definition py_sum :: "f64 list \<Rightarrow> py_number" where
  "py_sum xs = (if xs = [] then PyInt 0 else PyFloat (foldl f64_add (Finite False 0 0) xs))"

text \<open>
  \<open>a / b\<close>. On floats it raises \<open>ZeroDivisionError\<close> on a divisor \<open>0.0\<close> or \<open>-0.0\<close>; an
  \<open>int\<close> that meets a float is converted first; the quotient of two \<open>int\<close>s is the
  double nearest to it.
\<close>

definition float_truediv :: "f64 \<Rightarrow> f64 \<Rightarrow> py_error + f64" where
  "float_truediv x y = (if f64_is_zero y then Inl ZeroDivisionError else Inr (f64_div x y))"

definition int_truediv :: "int \<Rightarrow> int \<Rightarrow> py_error + f64" where
  "int_truediv a b =
     (if b = 0 then Inl ZeroDivisionError
      else if f64_is_finite (f64_round ((a < 0) \<noteq> (b < 0)) (nat \<bar>a\<bar>) (nat \<bar>b\<bar>) 0)
      then Inr (f64_round ((a < 0) \<noteq> (b < 0)) (nat \<bar>a\<bar>) (nat \<bar>b\<bar>) 0)
      else Inl OverflowError)"

fun py_truediv :: "py_number \<Rightarrow> py_number \<Rightarrow> py_error + f64" where
  "py_truediv (PyInt a) (PyInt b) = int_truediv a b"
| "py_truediv (PyFloat x) (PyInt b) =
     (case int_to_float b of Inl e \<Rightarrow> Inl e | Inr y \<Rightarrow> float_truediv x y)"
| "py_truediv (PyInt a) (PyFloat y) =
     (case int_to_float a of Inl e \<Rightarrow> Inl e | Inr x \<Rightarrow> float_truediv x y)"
| "py_truediv (PyFloat x) (PyFloat y) = float_truediv x y"

subsection \<open>Core logic\<close>

text \<open>
  \<open>[float(b["c"]) for b in bars if "c" in b]\<close>, from the left: the first conversion
  that raises ends the comprehension.
\<close>

fun closes_of :: "'t bar list \<Rightarrow> py_error + f64 list" where
  "closes_of [] = Inr []"
| "closes_of (b # bs) =
     (case bar_c b of
        None \<Rightarrow> closes_of bs
      | Some v \<Rightarrow>
          (case py_float v of
             Inl e \<Rightarrow> Inl e
           | Inr x \<Rightarrow> (case closes_of bs of Inl e \<Rightarrow> Inl e | Inr xs \<Rightarrow> Inr (x # xs))))"

definition compute_moving_average ::
  "'t bar list \<Rightarrow> int \<Rightarrow> (py_error + f64) \<times> effect list" where
  "compute_moving_average bars window =
     (if bars = [] then (Inl ValueError, [])
      else
        case closes_of bars of
          Inl e \<Rightarrow> (Inl e, [])
        | Inr closes \<Rightarrow>
            let short = (int (length closes) < window);
                fx = (if short then [Log WARNING (OnlyClosesAvailable (length closes) window)]
                      else []);
                window' = (if short then int (length closes) else window);
                relevant = py_slice_from (- window') closes
            in case py_truediv (py_sum relevant) (PyInt window') of
                 Inl e \<Rightarrow> (Inl e, fx)
               | Inr ma_value \<Rightarrow> (Inr ma_value, fx @ [Log INFO (ComputedMA window' ma_value)]))"

definition classify_trend ::
  "f64 \<Rightarrow> f64 \<Rightarrow> (py_error + string \<times> f64) \<times> effect list" where
  "classify_trend last_price ma_value =
     (case float_truediv (f64_sub last_price ma_value) ma_value of
        Inl e \<Rightarrow> (Inl e, [])
      | Inr q \<Rightarrow>
          let diff_pct = f64_mul q (f64_lit 100 1);
              label = (if f64_greater last_price (f64_mul ma_value (f64_lit 110 100)) then ''WEAK''
                       else if f64_greater_eq last_price ma_value then ''MODERATE''
                       else ''STRONG'')
          in (Inr (label, diff_pct),
              [Log INFO (Classification last_price ma_value diff_pct label)]))"

subsection \<open>Google Sheets helpers\<close>

text \<open>\<open>not s\<close> for the result of \<open>os.getenv\<close>: unset or the empty string.\<close>

definition py_not :: "string option \<Rightarrow> bool" where
  "py_not s = (s = None \<or> s = Some [])"

definition get_gspread_client :: "'t cycle_env \<Rightarrow> py_error + unit" where
  "get_gspread_client env =
     (if py_not (google_sa_json env) then Inl RuntimeError
      else case sheets_auth env of Some e \<Rightarrow> Inl e | None \<Rightarrow> Inr ())"

definition get_dashboard_worksheet :: "'t cycle_env \<Rightarrow> unit \<Rightarrow> py_error + unit" where
  "get_dashboard_worksheet env client =
     (case sheets_open env of Some e \<Rightarrow> Inl e | None \<Rightarrow> Inr ())"

definition update_dashboard_cell ::
  "config \<Rightarrow> 't cycle_env \<Rightarrow> unit \<Rightarrow> string \<Rightarrow> (py_error + unit) \<times> effect list" where
  "update_dashboard_cell cfg env ws val =
     (let fx = [Log INFO (UpdatingCell val), CellUpdate (target_cell cfg) val]
      in case ws_update env of Some e \<Rightarrow> (Inl e, fx) | None \<Rightarrow> (Inr (), fx))"

subsection \<open>Market-data helper\<close>

text \<open>
  \<open>sorted(bars, key=lambda b: b.get("t"))\<close>. The key of a bar without \<open>"t"\<close> is
  \<open>None\<close>, and Python refuses to compare \<open>None\<close> with anything: as soon as two bars are
  compared (the list has two elements or more) and one of them lacks its timestamp, the
  sort raises \<open>TypeError\<close>. Otherwise the result is the stable sort by timestamp.
\<close>

definition py_sorted_by_t :: "'t::linorder bar list \<Rightarrow> py_error + 't bar list" where
  "py_sorted_by_t bars =
     (if 2 \<le> length bars \<and> (\<exists>b \<in> set bars. bar_t b = None) then Inl TypeError
      else Inr (sort_key (\<lambda>b. the (bar_t b)) bars))"

definition fetch_rsp_daily_bars ::
  "'t::linorder cycle_env \<Rightarrow> string \<Rightarrow> int \<Rightarrow> (py_error + 't bar list) \<times> effect list" where
  "fetch_rsp_daily_bars env symbol limit =
     (if py_not (alpaca_key env) \<or> py_not (alpaca_secret env) then (Inl RuntimeError, [])
      else
        let fx1 = [Log INFO (RequestingBars limit symbol), HttpGet symbol limit]
        in case http_get env of
             Inl e \<Rightarrow> (Inl e, fx1)
           | Inr resp \<Rightarrow>
               if 400 \<le> resp_status resp \<and> resp_status resp < 600
               then (Inl (LibraryError ''HTTPError''),
                     fx1 @ [Log ERROR (ErrorResponse (resp_text resp))])
               else
                 (case resp_json resp of
                    Inl e \<Rightarrow> (Inl e, fx1)
                  | Inr BarsNull \<Rightarrow> (Inl TypeError, fx1)
                  | Inr BarsAbsent \<Rightarrow>
                      (Inr [], fx1 @ [Log INFO (ReceivedBars 0), Log WARNING NoBarsReturned])
                  | Inr (BarsList bars) \<Rightarrow>
                      let fx2 = fx1 @ [Log INFO (ReceivedBars (length bars))]
                      in if bars = [] then (Inr [], fx2 @ [Log WARNING NoBarsReturned])
                         else (py_sorted_by_t bars, fx2)))"

subsection \<open>One cycle\<close>

text \<open>
  \<open>run_once\<close>, step by step as in the source. The read of the previous cell value sits
  in its own \<open>try\<close>/\<open>except Exception\<close>: an \<open>Exception\<close> it raises is dropped there and
  the previous value is \<open>None\<close>.
\<close>

definition run_once :: "config \<Rightarrow> 't::linorder cycle_env \<Rightarrow> (py_error + unit) \<times> effect list" where
  "run_once cfg env =
     (let fx0 = [Log INFO StartingCycle]
      in case get_gspread_client env of
           Inl e \<Rightarrow> (Inl e, fx0)
         | Inr client \<Rightarrow>
      (case get_dashboard_worksheet env client of
           Inl e \<Rightarrow> (Inl e, fx0)
         | Inr ws \<Rightarrow>
      (case fetch_rsp_daily_bars env (alpaca_symbol cfg) (ma_window cfg) of
           (Inl e, fx1) \<Rightarrow> (Inl e, fx0 @ fx1)
         | (Inr bars, fx1) \<Rightarrow>
      if bars = [] then (Inr (), fx0 @ fx1 @ [Log ERROR NoBarsSkipping])
      else
      (case compute_moving_average bars (ma_window cfg) of
           (Inl e, fx2) \<Rightarrow> (Inl e, fx0 @ fx1 @ fx2)
         | (Inr ma_value, fx2) \<Rightarrow>
      (case bar_c (last bars) of
           None \<Rightarrow> (Inl KeyError, fx0 @ fx1 @ fx2)
         | Some v \<Rightarrow>
      (case py_float v of
           Inl e \<Rightarrow> (Inl e, fx0 @ fx1 @ fx2)
         | Inr last_price \<Rightarrow>
      let fx3 = [Log INFO (LatestBar last_price)]
      in
      (case classify_trend last_price ma_value of
           (Inl e, fx4) \<Rightarrow> (Inl e, fx0 @ fx1 @ fx2 @ fx3 @ fx4)
         | (Inr (label, diff_pct), fx4) \<Rightarrow>
      let fx5 = [AcellRead (target_cell cfg)]
      in
      (case (case ws_acell env of
               Inr v \<Rightarrow> Inr v
             | Inl e \<Rightarrow> if is_Exception e then Inr None else Inl e) of
           Inl e \<Rightarrow> (Inl e, fx0 @ fx1 @ fx2 @ fx3 @ fx4 @ fx5)
         | Inr previous_value \<Rightarrow>
      let fx6 = [Log INFO (PreviousValue previous_value)]
      in
      (case update_dashboard_cell cfg env ws label of
           (Inl e, fx7) \<Rightarrow> (Inl e, fx0 @ fx1 @ fx2 @ fx3 @ fx4 @ fx5 @ fx6 @ fx7)
         | (Inr u, fx7) \<Rightarrow>
             (Inr (), fx0 @ fx1 @ fx2 @ fx3 @ fx4 @ fx5 @ fx6 @ fx7
                        @ [Log INFO (FinishedCycle label diff_pct)]))))))))))"

subsection \<open>The scheduler loop\<close>

text \<open>
  \<open>time.sleep(secs)\<close> with an \<open>int\<close>: the argument is converted to a 64-bit count of
  nanoseconds (\<open>OverflowError\<close> beyond it, CPython 3.11), a negative one is refused with
  \<open>ValueError\<close>, and then the process sleeps, unless the operating system's sleep
  raises.
\<close>

definition time_sleep :: "'t cycle_env \<Rightarrow> int \<Rightarrow> py_error option \<times> effect list" where
  "time_sleep env secs =
     (if 9223372036 < \<bar>secs\<bar> then (Some OverflowError, [])
      else if secs < 0 then (Some ValueError, [])
      else (os_sleep env, [Sleep secs]))"

text \<open>
  \<open>main\<close> is \<open>while True\<close> around \<open>try: run_once()\<close>, \<open>except Exception\<close> (log it), then
  the log line and \<open>time.sleep\<close>, both outside the \<open>try\<close>. The loop has no exit of its
  own, so the model runs a given number of iterations: \<open>main_loop cfg envs i n\<close>
  performs the iterations \<open>i, \<dots>, i + n - 1\<close>, the outside world of iteration \<open>k\<close> being
  \<open>envs k\<close>. Its first component is \<open>None\<close> when the process is still running after
  them and \<open>Some e\<close> when the exception \<open>e\<close> left the loop and ended the process.
\<close>

definition run_guarded :: "config \<Rightarrow> 't::linorder cycle_env \<Rightarrow> py_error option \<times> effect list" where
  "run_guarded cfg env =
     (case run_once cfg env of
        (Inr u, fx) \<Rightarrow> (None, fx)
      | (Inl e, fx) \<Rightarrow>
          if is_Exception e then (None, fx @ [Log ERROR (UnexpectedError e)])
          else (Some e, fx))"

definition main_iteration :: "config \<Rightarrow> 't::linorder cycle_env \<Rightarrow> py_error option \<times> effect list" where
  "main_iteration cfg env =
     (case run_guarded cfg env of
        (Some e, fx) \<Rightarrow> (Some e, fx)
      | (None, fx) \<Rightarrow>
          (case time_sleep env (refresh_interval_seconds cfg) of
             (r, fs) \<Rightarrow> (r, fx @ [Log INFO (SleepingFor (refresh_interval_seconds cfg))] @ fs)))"

fun main_loop ::
  "config \<Rightarrow> (nat \<Rightarrow> 't::linorder cycle_env) \<Rightarrow> nat \<Rightarrow> nat \<Rightarrow> py_error option \<times> effect list" where
  "main_loop cfg envs i 0 = (None, [])"
| "main_loop cfg envs i (Suc n) =
     (case main_iteration cfg (envs i) of
        (Some e, fx) \<Rightarrow> (Some e, fx)
      | (None, fx) \<Rightarrow>
          (case main_loop cfg envs (Suc i) n of (r, fx') \<Rightarrow> (r, fx @ fx')))"

definition main :: "config \<Rightarrow> (nat \<Rightarrow> 't::linorder cycle_env) \<Rightarrow> nat \<Rightarrow> py_error option \<times> effect list" where
  "main cfg envs n =
     (case main_loop cfg envs 0 n of (r, fx) \<Rightarrow> (r, Log INFO BotStarting # fx))"

subsection \<open>Observations on effects and on the outside world\<close>

text \<open>
  \<open>is_boundary_catch\<close> recognises the log line the handler of \<open>main\<close> writes.
  \<open>no_exit_signal env\<close> says that whatever the external calls of the cycle raise is an
  \<open>Exception\<close>: no \<open>KeyboardInterrupt\<close> or \<open>SystemExit\<close> reaches the process there.
  \<open>sleep_accepts secs\<close> says that \<open>time.sleep\<close> accepts the interval.
\<close>

fun is_cell_update :: "effect \<Rightarrow> bool" where
  "is_cell_update (CellUpdate cell val) = True"
| "is_cell_update _ = False"

fun is_computed_ma :: "effect \<Rightarrow> bool" where
  "is_computed_ma (Log lvl (ComputedMA w m)) = True"
| "is_computed_ma _ = False"

fun is_boundary_catch :: "effect \<Rightarrow> bool" where
  "is_boundary_catch (Log lvl (UnexpectedError e)) = True"
| "is_boundary_catch _ = False"

fun is_sleep :: "effect \<Rightarrow> bool" where
  "is_sleep (Sleep n) = True"
| "is_sleep _ = False"

definition no_exit_signal :: "'t cycle_env \<Rightarrow> bool" where
  "no_exit_signal env =
     ((case sheets_auth env of Some e \<Rightarrow> is_Exception e | None \<Rightarrow> True)
      \<and> (case sheets_open env of Some e \<Rightarrow> is_Exception e | None \<Rightarrow> True)
      \<and> (case http_get env of
             Inl e \<Rightarrow> is_Exception e
           | Inr resp \<Rightarrow> (case resp_json resp of Inl e \<Rightarrow> is_Exception e | Inr d \<Rightarrow> True))
      \<and> (case ws_acell env of Inl e \<Rightarrow> is_Exception e | Inr v \<Rightarrow> True)
      \<and> (case ws_update env of Some e \<Rightarrow> is_Exception e | None \<Rightarrow> True))"

definition sleep_accepts :: "int \<Rightarrow> bool" where
  "sleep_accepts secs = (0 \<le> secs \<and> secs \<le> 9223372036)"

subsection \<open>Notions of the specification\<close>








subsection \<open>Sample inputs\<close>

text \<open>A bar that carries a timestamp, possibly a close, and no other key.\<close>

definition bar_tc :: "'t \<Rightarrow> json_value option \<Rightarrow> 't bar" where
  "bar_tc ts close =
     \<lparr>bar_t = Some ts, bar_o = None, bar_h = None, bar_l = None, bar_c = close, bar_v = None\<rparr>"



definition no_timestamp_bars :: "nat bar list" where
  "no_timestamp_bars =
     [bar_tc 2 (Some (JInt 100)), (bar_tc 1 (Some (JInt 90)))\<lparr>bar_t := None\<rparr>]"

text \<open>
  The default configuration, and a world in which every external call succeeds and
  nothing interrupts the sleep.
\<close>

definition sample_cfg :: config where
  "sample_cfg =
     \<lparr>alpaca_symbol = ''RSP'', ma_window = 960, target_cell = ''T3'',
      refresh_interval_seconds = 3600\<rparr>"

definition env_ok :: "nat bar bars_field \<Rightarrow> nat cycle_env" where
  "env_ok body =
     \<lparr>google_sa_json = Some ''{}'', sheets_auth = None, sheets_open = None,
      alpaca_key = Some ''key'', alpaca_secret = Some ''secret'',
      http_get = Inr \<lparr>resp_status = 200, resp_text = [], resp_json = Inr body\<rparr>,
      ws_acell = Inr (Some ''STRONG''), ws_update = None, os_sleep = None\<rparr>"

text \<open>
  Three bars out of order; a world in which the read of the previous cell value raises;
  a world in which the cell update raises; a run whose first cycle meets the latter and
  whose later cycles meet no failure; a world in which the cell update is hit by
  \<open>SystemExit\<close>; and a configuration with a negative interval.
\<close>

definition sample_bars :: "nat bar list" where
  "sample_bars =
     [bar_tc 3 (Some (JInt 110)), bar_tc 1 (Some (JInt 90)), bar_tc 2 (Some (JFloat (f64_lit 100 1)))]"

definition env_acell_fails :: "nat cycle_env" where
  "env_acell_fails = (env_ok (BarsList sample_bars))\<lparr>ws_acell := Inl (LibraryError ''APIError'')\<rparr>"

definition env_update_fails :: "nat cycle_env" where
  "env_update_fails = (env_ok (BarsList sample_bars))\<lparr>ws_update := Some (LibraryError ''APIError'')\<rparr>"

definition envs_update_fails_once :: "nat \<Rightarrow> nat cycle_env" where
  "envs_update_fails_once k = (if k = 0 then env_update_fails else env_ok (BarsList sample_bars))"

definition env_update_exits :: "nat cycle_env" where
  "env_update_exits = (env_ok (BarsList sample_bars))\<lparr>ws_update := Some SystemExit\<rparr>"

definition negative_interval_cfg :: config where
  "negative_interval_cfg = sample_cfg\<lparr>refresh_interval_seconds := - 1\<rparr>"

section \<open>Properties\<close>

subsection \<open>Binary64: conversions, comparisons, known values\<close>

text \<open>
  \<open>float(i)\<close> of an integer other than 0 is not a zero, and of an integer below \<open>2\<^sup>6\<^sup>3\<close>
  in absolute value it is finite.
\<close>

lemma bitlen_pos: "0 < n \<Longrightarrow> 0 < bitlen n"
  by (subst bitlen.simps) simp

lemma bitlen_Suc_0: "bitlen (Suc 0) = Suc 0"
  by (simp add: bitlen.simps)

lemma bitlen_lower: "0 < n \<Longrightarrow> 2 ^ (bitlen n - 1) \<le> n"
proof (induction n rule: bitlen.induct)
  case (1 n)
  show ?case
  proof (cases "n div 2 = 0")
    case True
    with 1(2) have "n = 1" by (simp add: div_eq_0_iff)
    then show ?thesis by (simp add: bitlen_Suc_0)
  next
    case False
    then have pos: "0 < n div 2" by simp
    with 1 have ih: "2 ^ (bitlen (n div 2) - 1) \<le> n div 2" by simp
    have eq: "bitlen n = Suc (bitlen (n div 2))"
      using 1(2) by (subst bitlen.simps) simp
    from bitlen_pos [OF pos] have "2 ^ bitlen (n div 2) = 2 * 2 ^ (bitlen (n div 2) - 1)"
      by (cases "bitlen (n div 2)") simp_all
    also have "\<dots> \<le> 2 * (n div 2)" using ih by simp
    also have "\<dots> \<le> n" by simp
    finally show ?thesis by (simp add: eq)
  qed
qed

lemma floor_log2_one: "0 < n \<Longrightarrow> floor_log2 n (Suc 0) = int (bitlen n) - 1"
proof -
  assume n: "0 < n"
  have "nat (int (bitlen n) - 1) = bitlen n - 1" by simp
  moreover have "int (bitlen n) - int (Suc 0) = int (bitlen n) - 1" by simp
  ultimately show ?thesis
    using bitlen_lower [OF n] bitlen_pos [OF n]
    by (simp add: floor_log2_def floor_log2_near_def bitlen_Suc_0)
qed

lemma round_from_ge: "q \<le> round_from q r d"
  by (simp add: round_from_def)

lemma f64_pack_nonzero: "m \<noteq> 0 \<Longrightarrow> \<not> f64_is_zero (f64_pack s m p)"
  by (simp add: f64_pack_def)


lemma f64_round_int_nonzero:
  assumes "0 < n"
  shows "\<not> f64_is_zero (f64_round s n (Suc 0) 0)"
proof -
  define p where "p = max (floor_log2 n (Suc 0) + 0 - 52) (- 1074)"
  have p: "p = int (bitlen n) - 53"
    using assms bitlen_pos [OF assms] by (simp add: p_def floor_log2_one)
  have "(if p \<le> 0 then round_half_even (n * 2 ^ nat (0 - p)) (Suc 0)
             else round_half_even n (Suc 0 * 2 ^ nat (p - 0))) \<noteq> 0"
  proof (cases "p \<le> 0")
    case True
    then show ?thesis using assms by (simp add: round_half_even_def round_from_def)
  next
    case False
    then have "nat p \<le> bitlen n - 1" using p by simp
    then have "(2::nat) ^ nat p \<le> 2 ^ (bitlen n - 1)"
      by (intro power_increasing) simp_all
    from this bitlen_lower [OF assms] have "2 ^ nat p \<le> n" by (rule le_trans)
    then have "0 < n div 2 ^ nat p" by (simp add: div_greater_zero_iff)
    with round_from_ge [of "n div 2 ^ nat p" "n mod 2 ^ nat p" "2 ^ nat p"] False
    show ?thesis by (simp add: round_half_even_def)
  qed
  from f64_pack_nonzero [OF this]
  have "\<not> f64_is_zero (f64_round_at s n (Suc 0) 0 p)"
    unfolding f64_round_at_def .
  moreover have "f64_round s n (Suc 0) 0 = f64_round_at s n (Suc 0) 0 p"
    using assms unfolding f64_round_def p_def by simp
  ultimately show ?thesis by simp
qed

lemma f64_of_int_nonzero: "i \<noteq> 0 \<Longrightarrow> \<not> f64_is_zero (f64_of_int i)"
  using f64_round_int_nonzero [of "nat \<bar>i\<bar>" "i < 0"] by (simp add: f64_of_int_def)



lemmas f64_eval = f64_lit_def f64_of_int_def f64_round_def f64_round_at_def f64_pack_def
  floor_log2_def floor_log2_near_def round_half_even_def round_from_def
  f64_of_signed_def f64_sub_def signed_def bitlen.simps f64_greater_def f64_greater_eq_def

text \<open>
  On finite doubles the comparisons of the model are the comparisons of the real
  numbers they stand for.
\<close>

lemma f64_value_Finite: "f64_value (Finite s m e) = real_of_int (signed s m) * 2 powi e"
proof (cases "0 \<le> e")
  case True
  then show ?thesis by (simp add: f64_value_def power_int_def)
next
  case False
  then have "(2::real) powi e = inverse (2 ^ nat (- e))"
    by (simp add: power_int_def power_one_over inverse_eq_divide)
  with False show ?thesis by (simp add: f64_value_def divide_inverse)
qed

lemma scale_to_min:
  fixes t :: int
  assumes "e \<le> e1"
  shows "real_of_int t * 2 powi e1 = real_of_int (t * 2 ^ nat (e1 - e)) * 2 powi e"
proof -
  have "(2::real) powi e1 = 2 powi (e1 - e) * 2 powi e"
    by (simp add: power_int_add [symmetric])
  moreover have "(2::real) powi (e1 - e) = 2 ^ nat (e1 - e)"
    using assms by (simp add: power_int_def)
  ultimately show ?thesis by simp
qed

lemma f64_less_value:
  "f64_less (Finite s1 m1 e1) (Finite s2 m2 e2) \<longleftrightarrow>
     f64_value (Finite s1 m1 e1) < f64_value (Finite s2 m2 e2)"
proof -
  have pos: "(0::real) < 2 powi (min e1 e2)" by simp
  have "f64_value (Finite s1 m1 e1) < f64_value (Finite s2 m2 e2) \<longleftrightarrow>
        real_of_int (signed s1 m1 * 2 ^ nat (e1 - min e1 e2)) * 2 powi (min e1 e2)
          < real_of_int (signed s2 m2 * 2 ^ nat (e2 - min e1 e2)) * 2 powi (min e1 e2)"
    by (simp only: f64_value_Finite scale_to_min [of "min e1 e2" e1] scale_to_min [of "min e1 e2" e2]
        min.cobounded1 min.cobounded2)
  also have "\<dots> \<longleftrightarrow> real_of_int (signed s1 m1 * 2 ^ nat (e1 - min e1 e2))
                       < real_of_int (signed s2 m2 * 2 ^ nat (e2 - min e1 e2))"
    using pos by (simp only: mult_less_cancel_right_pos)
  also have "\<dots> \<longleftrightarrow> f64_less (Finite s1 m1 e1) (Finite s2 m2 e2)"
    by (simp only: of_int_less_iff f64_less.simps)
  finally show ?thesis by simp
qed

lemma f64_less_eq_value:
  "f64_less_eq (Finite s1 m1 e1) (Finite s2 m2 e2) \<longleftrightarrow>
     f64_value (Finite s1 m1 e1) \<le> f64_value (Finite s2 m2 e2)"
proof -
  have pos: "(0::real) < 2 powi (min e1 e2)" by simp
  have "f64_value (Finite s1 m1 e1) \<le> f64_value (Finite s2 m2 e2) \<longleftrightarrow>
        real_of_int (signed s1 m1 * 2 ^ nat (e1 - min e1 e2)) * 2 powi (min e1 e2)
          \<le> real_of_int (signed s2 m2 * 2 ^ nat (e2 - min e1 e2)) * 2 powi (min e1 e2)"
    by (simp only: f64_value_Finite scale_to_min [of "min e1 e2" e1] scale_to_min [of "min e1 e2" e2]
        min.cobounded1 min.cobounded2)
  also have "\<dots> \<longleftrightarrow> real_of_int (signed s1 m1 * 2 ^ nat (e1 - min e1 e2))
                       \<le> real_of_int (signed s2 m2 * 2 ^ nat (e2 - min e1 e2))"
    using pos by (simp only: mult_le_cancel_right_pos)
  also have "\<dots> \<longleftrightarrow> f64_less_eq (Finite s1 m1 e1) (Finite s2 m2 e2)"
    by (simp only: of_int_le_iff f64_less_eq.simps)
  finally show ?thesis by simp
qed

text \<open>
  The arithmetic of the model on known values of binary64: \<open>0.1\<close>, \<open>0.1 + 0.2\<close> (the
  double after \<open>0.3\<close>), \<open>1.0 / 3.0\<close>, overflow to infinity, the largest double absorbing
  less than half a unit in its last place, subnormal results rounded to even, the signs
  of zero sums, integers beyond \<open>2\<^sup>5\<^sup>3\<close> rounded to even, and \<open>0 / -5\<close>.
\<close>

lemma f64_known_values:
  "f64_lit 1 10 = Finite False 7205759403792794 (- 56)"
  "f64_add (f64_lit 1 10) (f64_lit 2 10) = Finite False 5404319552844596 (- 54)"
  "f64_less (f64_lit 3 10) (f64_add (f64_lit 1 10) (f64_lit 2 10))"
  "f64_div (f64_lit 1 1) (f64_lit 3 1) = Finite False 6004799503160661 (- 54)"
  "f64_mul (Finite False 9007199254740991 971) (f64_lit 2 1) = Infinity False"
  "f64_add (Finite False 9007199254740991 971) (Finite False 1 917) = Finite False 9007199254740991 971"
  "f64_add (Finite False 9007199254740991 971) (Finite False 1 970) = Infinity False"
  "f64_div (Finite False 3 (- 1074)) (f64_lit 2 1) = Finite False 2 (- 1074)"
  "f64_div (Finite False 1 (- 1074)) (f64_lit 2 1) = Finite False 0 0"
  "f64_sub (f64_lit 1 10) (f64_lit 1 10) = Finite False 0 0"
  "f64_add (Finite True 0 0) (Finite True 0 0) = Finite True 0 0"
  "f64_add (Finite True 0 0) (Finite False 0 0) = Finite False 0 0"
  "f64_of_int (2 ^ 53 + 1) = Finite False 4503599627370496 1"
  "f64_of_int (2 ^ 53 + 3) = Finite False 4503599627370498 1"
  "int_truediv 0 (- 5) = Inr (Finite True 0 0)"
  by (simp_all add: int_truediv_def f64_eval)

subsection \<open>Slices and closes\<close>





lemma py_float_error:
  "py_float v = Inl e \<Longrightarrow> e = TypeError \<or> e = ValueError \<or> e = OverflowError"
  by (cases v rule: py_float.cases) (auto simp: int_to_float_def split: if_splits)


lemma closes_of_error:
  "closes_of bars = Inl e \<Longrightarrow>
     (e = TypeError \<or> e = ValueError \<or> e = OverflowError) \<and> (\<exists>b\<in>set bars. bar_c b \<noteq> None)"
  by (induction bars) (auto split: option.splits sum.splits dest: py_float_error)

lemma closes_of_Nil_iff:
  "closes_of bars = Inr xs \<Longrightarrow> xs = [] \<longleftrightarrow> (\<forall>b\<in>set bars. bar_c b = None)"
  by (induction bars arbitrary: xs) (auto split: option.splits sum.splits)

lemma closes_of_no_close: "(\<forall>b\<in>set bars. bar_c b = None) \<Longrightarrow> closes_of bars = Inr []"
  by (induction bars) auto


subsection \<open>Division by the window\<close>


lemma py_truediv_no_zero_division:
  "w \<noteq> 0 \<Longrightarrow> py_truediv s (PyInt w) \<noteq> Inl ZeroDivisionError"
  using f64_of_int_nonzero [of w]
  by (cases s) (auto simp: int_truediv_def int_to_float_def float_truediv_def)

subsection \<open>The trend classifier\<close>

text \<open>
  Claim C1. For every last price and every non-zero moving average, \<open>classify_trend\<close>
  returns the label of the ordered threshold tests, evaluated in binary64 arithmetic as
  the source evaluates them: WEAK if the price is strictly above the product of the
  average and 1.10, otherwise MODERATE if the price is at least the average, otherwise
  STRONG. With an average of 100: a price of 110 is MODERATE, 110.0001 is WEAK, 100 is
  MODERATE and 99.999 is STRONG.
\<close>

theorem classify_trend_label:
  "(\<not> f64_is_zero ma_value \<longrightarrow>
      map_sum id fst (fst (classify_trend last_price ma_value)) =
        Inr (if f64_greater last_price (f64_mul ma_value (f64_lit 110 100)) then ''WEAK''
             else if f64_greater_eq last_price ma_value then ''MODERATE''
             else ''STRONG''))
   \<and> map_sum id fst (fst (classify_trend (f64_lit 110 1) (f64_lit 100 1))) = Inr ''MODERATE''
   \<and> map_sum id fst (fst (classify_trend (f64_lit 1100001 10000) (f64_lit 100 1))) = Inr ''WEAK''
   \<and> map_sum id fst (fst (classify_trend (f64_lit 100 1) (f64_lit 100 1))) = Inr ''MODERATE''
   \<and> map_sum id fst (fst (classify_trend (f64_lit 99999 1000) (f64_lit 100 1))) = Inr ''STRONG''"
proof (intro conjI impI)
  assume "\<not> f64_is_zero ma_value"
  then show "map_sum id fst (fst (classify_trend last_price ma_value)) =
        Inr (if f64_greater last_price (f64_mul ma_value (f64_lit 110 100)) then ''WEAK''
             else if f64_greater_eq last_price ma_value then ''MODERATE''
             else ''STRONG'')"
    by (simp add: classify_trend_def float_truediv_def Let_def)
next
  show "map_sum id fst (fst (classify_trend (f64_lit 110 1) (f64_lit 100 1))) = Inr ''MODERATE''"
    by (simp add: classify_trend_def float_truediv_def Let_def f64_eval)
next
  show "map_sum id fst (fst (classify_trend (f64_lit 1100001 10000) (f64_lit 100 1))) = Inr ''WEAK''"
    by (simp add: classify_trend_def float_truediv_def Let_def f64_eval)
next
  show "map_sum id fst (fst (classify_trend (f64_lit 100 1) (f64_lit 100 1))) = Inr ''MODERATE''"
    by (simp add: classify_trend_def float_truediv_def Let_def f64_eval)
next
  show "map_sum id fst (fst (classify_trend (f64_lit 99999 1000) (f64_lit 100 1))) = Inr ''STRONG''"
    by (simp add: classify_trend_def float_truediv_def Let_def f64_eval)
qed

theorem classify_trend_label_witness:
  "\<not> f64_is_zero (f64_lit 7 1)
   \<and> map_sum id fst (fst (classify_trend (f64_lit 8 1) (f64_lit 7 1))) = Inr ''WEAK''"
  using classify_trend_label [of "f64_lit 7 1" "f64_lit 8 1"] by (simp add: f64_eval)

text \<open>
  The threshold of the first test is the rounded product. \<open>100.0 * 1.10\<close> is the double
  after \<open>110.0\<close>, which as a price is still MODERATE against an average of 100; and
  against an average of \<open>-100\<close> the price \<open>-110\<close> is WEAK.
\<close>

lemma classify_trend_rounded_threshold:
  "f64_mul (f64_lit 100 1) (f64_lit 110 100) = Finite False 7740561859543041 (- 46)
   \<and> f64_lit 110 1 = Finite False 7740561859543040 (- 46)
   \<and> map_sum id fst (fst (classify_trend (Finite False 7740561859543041 (- 46)) (f64_lit 100 1)))
       = Inr ''MODERATE''
   \<and> map_sum id fst (fst (classify_trend (f64_neg (f64_lit 110 1)) (f64_neg (f64_lit 100 1))))
       = Inr ''WEAK''"
  by (simp add: classify_trend_def float_truediv_def Let_def f64_eval)

text \<open>
  Claim C5. With a moving average of zero (\<open>0.0\<close> or \<open>-0.0\<close>) \<open>classify_trend\<close> returns
  no label for any last price: the division that defines the percentage raises (Python's
  \<open>ZeroDivisionError\<close>, the specification's \<open>DegenerateInputError\<close>).
\<close>

theorem classify_trend_zero_average:
  "classify_trend last_price (Finite s 0 e) = (Inl ZeroDivisionError, [])"
  by (simp add: classify_trend_def float_truediv_def)

text \<open>
  Claim C6. For every last price and non-zero moving average, the percentage returned
  by \<open>classify_trend\<close> is \<open>(last_price - ma_value) / ma_value * 100.0\<close>, evaluated in
  binary64 arithmetic as the source evaluates it; for a price of 105 and an average of
  100 it is the double \<open>5.0\<close>, which stands for exactly 5.
\<close>

theorem classify_trend_diff_pct:
  "(\<not> f64_is_zero ma_value \<longrightarrow>
      map_sum id snd (fst (classify_trend last_price ma_value)) =
        Inr (f64_mul (f64_div (f64_sub last_price ma_value) ma_value) (f64_lit 100 1)))
   \<and> map_sum id snd (fst (classify_trend (f64_lit 105 1) (f64_lit 100 1))) = Inr (f64_lit 5 1)
   \<and> f64_value (f64_lit 5 1) = 5"
proof (intro conjI impI)
  assume "\<not> f64_is_zero ma_value"
  then show "map_sum id snd (fst (classify_trend last_price ma_value)) =
        Inr (f64_mul (f64_div (f64_sub last_price ma_value) ma_value) (f64_lit 100 1))"
    by (simp add: classify_trend_def float_truediv_def Let_def)
next
  show "map_sum id snd (fst (classify_trend (f64_lit 105 1) (f64_lit 100 1))) = Inr (f64_lit 5 1)"
    by (simp add: classify_trend_def float_truediv_def Let_def f64_eval)
next
  show "f64_value (f64_lit 5 1) = 5"
    by (simp add: f64_value_def f64_eval)
qed

theorem classify_trend_diff_pct_witness:
  "\<not> f64_is_zero (f64_lit 50 1)
   \<and> map_sum id snd (fst (classify_trend (f64_lit 40 1) (f64_lit 50 1))) = Inr (f64_neg (f64_lit 20 1))"
  using classify_trend_diff_pct [of "f64_lit 50 1" "f64_lit 40 1"] by (simp add: f64_eval)

text \<open>
  Each of the three operations rounds: for a price of 107 against an average of 100 the
  percentage is the double after \<open>7.0\<close>.
\<close>

lemma classify_trend_diff_pct_rounded:
  "map_sum id snd (fst (classify_trend (f64_lit 107 1) (f64_lit 100 1)))
     = Inr (Finite False 7881299347898369 (- 50))
   \<and> f64_lit 7 1 = Finite False 7881299347898368 (- 50)"
  by (simp add: classify_trend_def float_truediv_def Let_def f64_eval)

subsection \<open>The moving average\<close>

text \<open>
  Claim C4. On an empty bar series \<open>compute_moving_average\<close> raises for every window
  (Python's \<open>ValueError\<close>, the specification's \<open>InsufficientDataError\<close>) and returns no
  value.
\<close>

theorem compute_moving_average_empty:
  "compute_moving_average [] window = (Inl ValueError, [])"
  by (simp add: compute_moving_average_def)







text \<open>
  Claim C10. On a non-empty bar series in which no bar carries a close, with a window of
  at least 1, \<open>compute_moving_average\<close> passes its non-empty check, shrinks the window
  to the number of closes, which is zero (the warning records it), and the division by
  the window raises \<open>ZeroDivisionError\<close>. For such windows the division raises exactly
  when no bar of the series carries a close: it is safe only if at least one does.
\<close>

theorem compute_moving_average_no_close:
  assumes "bars \<noteq> []" and "1 \<le> window"
  shows "((\<forall>b\<in>set bars. bar_c b = None) \<longrightarrow>
            compute_moving_average bars window =
              (Inl ZeroDivisionError, [Log WARNING (OnlyClosesAvailable 0 window)]))
         \<and> (fst (compute_moving_average bars window) = Inl ZeroDivisionError
              \<longleftrightarrow> (\<forall>b\<in>set bars. bar_c b = None))"
proof (cases "closes_of bars")
  case (Inl e)
  from closes_of_error [OF this] Inl assms show ?thesis
    by (auto simp: compute_moving_average_def)
next
  case (Inr closes)
  show ?thesis
  proof (cases "closes = []")
    case True
    with Inr closes_of_Nil_iff [OF Inr] assms show ?thesis
      by (simp add: compute_moving_average_def Let_def py_slice_from_def py_sum_def
          int_truediv_def)
  next
    case False
    have "fst (compute_moving_average bars window) \<noteq> Inl ZeroDivisionError"
    proof (cases "int (length closes) < window")
      case True
      have "int (length closes) \<noteq> 0"
        using False by simp
      from py_truediv_no_zero_division
        [OF this, of "py_sum (py_slice_from (- int (length closes)) closes)"]
      show ?thesis
        using assms(1) Inr True
        by (auto simp: compute_moving_average_def Let_def split: sum.splits)
    next
      case no_shrink: False
      have "window \<noteq> 0"
        using assms(2) by simp
      from py_truediv_no_zero_division [OF this, of "py_sum (py_slice_from (- window) closes)"]
      show ?thesis
        using assms(1) Inr no_shrink
        by (auto simp: compute_moving_average_def Let_def split: sum.splits)
    qed
    moreover have "\<not> (\<forall>b\<in>set bars. bar_c b = None)"
      using False closes_of_Nil_iff [OF Inr] by simp
    ultimately show ?thesis
      by blast
  qed
qed

theorem compute_moving_average_no_close_witness:
  "[bar_tc (5::nat) None, bar_tc 6 None] \<noteq> [] \<and> (1::int) \<le> 960
   \<and> compute_moving_average [bar_tc (5::nat) None, bar_tc 6 None] 960 =
       (Inl ZeroDivisionError, [Log WARNING (OnlyClosesAvailable 0 960)])"
  using compute_moving_average_no_close [of "[bar_tc (5::nat) None, bar_tc 6 None]" 960]
  by (simp add: bar_tc_def)

subsection \<open>Sorting\<close>

lemma sorted_le_last: "sorted xs \<Longrightarrow> x \<in> set xs \<Longrightarrow> x \<le> last xs"
  for xs :: "'a::linorder list"
  by (induction xs) auto

lemma sorted_last_ge:
  assumes "xs \<noteq> []" and "x \<in> set xs"
  shows "f x \<le> f (last (sort_key f xs))"
proof -
  let ?ys = "sort_key f xs"
  have ne: "?ys \<noteq> []" using assms(1) by (metis length_sort length_0_conv)
  have "f x \<in> set (map f ?ys)" using assms(2) by simp
  moreover have "sorted (map f ?ys)" by simp
  ultimately have "f x \<le> last (map f ?ys)" by (rule sorted_le_last [rotated])
  with ne show ?thesis by (simp add: last_map)
qed

lemma py_sorted_by_t_ok:
  assumes "\<forall>b\<in>set bars. bar_t b \<noteq> None"
  shows "py_sorted_by_t bars = Inr (sort_key (\<lambda>b. the (bar_t b)) bars)"
  using assms by (auto simp: py_sorted_by_t_def)

lemma py_sorted_by_t_not_Nil: "bars \<noteq> [] \<Longrightarrow> py_sorted_by_t bars \<noteq> Inr []"
proof
  assume ne: "bars \<noteq> []" and "py_sorted_by_t bars = Inr []"
  then have "sort_key (\<lambda>b. the (bar_t b)) bars = []"
    by (simp add: py_sorted_by_t_def split: if_splits)
  then have "length bars = 0" by (metis length_sort list.size(3))
  with ne show False by simp
qed

lemma fetch_no_bars_effects:
  assumes "fst (fetch_rsp_daily_bars env symbol limit) = Inr []"
  shows "snd (fetch_rsp_daily_bars env symbol limit) =
           [Log INFO (RequestingBars limit symbol), HttpGet symbol limit,
            Log INFO (ReceivedBars 0), Log WARNING NoBarsReturned]"
  using assms py_sorted_by_t_not_Nil
  by (auto simp: fetch_rsp_daily_bars_def Let_def
      split: if_splits sum.splits bars_field.splits)

subsection \<open>Which exceptions leave a cycle, and which effects it has\<close>

lemma get_gspread_client_Exception:
  "no_exit_signal env \<Longrightarrow> get_gspread_client env = Inl e \<Longrightarrow> is_Exception e"
  by (auto simp: get_gspread_client_def no_exit_signal_def split: if_splits option.splits)

lemma get_dashboard_worksheet_Exception:
  "no_exit_signal env \<Longrightarrow> get_dashboard_worksheet env c = Inl e \<Longrightarrow> is_Exception e"
  by (auto simp: get_dashboard_worksheet_def no_exit_signal_def split: option.splits)

lemma fetch_Exception:
  assumes "no_exit_signal env" and "fetch_rsp_daily_bars env symbol limit = (Inl e, fx)"
  shows "is_Exception e"
  using assms
  by (auto simp: fetch_rsp_daily_bars_def no_exit_signal_def py_sorted_by_t_def Let_def
      split: if_splits sum.splits bars_field.splits)

lemma py_float_Exception: "py_float v = Inl e \<Longrightarrow> is_Exception e"
  by (auto dest: py_float_error)

lemma py_truediv_Exception: "py_truediv a b = Inl e \<Longrightarrow> is_Exception e"
  by (cases a; cases b)
    (auto simp: int_truediv_def int_to_float_def float_truediv_def split: if_splits)

lemma compute_moving_average_Exception:
  "compute_moving_average bars window = (Inl e, fx) \<Longrightarrow> is_Exception e"
  by (auto simp: compute_moving_average_def Let_def
      split: if_splits sum.splits dest: closes_of_error py_truediv_Exception)

lemma classify_trend_Exception:
  "classify_trend p m = (Inl e, fx) \<Longrightarrow> is_Exception e"
  by (auto simp: classify_trend_def float_truediv_def Let_def split: if_splits)

lemma update_dashboard_cell_Exception:
  "no_exit_signal env \<Longrightarrow> update_dashboard_cell cfg env ws v = (Inl e, fx) \<Longrightarrow> is_Exception e"
  by (auto simp: update_dashboard_cell_def no_exit_signal_def Let_def split: option.splits)

lemma ws_acell_Exception:
  "no_exit_signal env \<Longrightarrow> ws_acell env = Inl e \<Longrightarrow> is_Exception e"
  by (auto simp: no_exit_signal_def)

lemma run_once_Exception:
  assumes "no_exit_signal env" and "fst (run_once cfg env) = Inl e"
  shows "is_Exception e"
  using assms(2)
    get_gspread_client_Exception [OF assms(1)]
    get_dashboard_worksheet_Exception [OF assms(1)]
    fetch_Exception [OF assms(1)]
    compute_moving_average_Exception
    py_float_Exception
    classify_trend_Exception
    update_dashboard_cell_Exception [OF assms(1)]
    ws_acell_Exception [OF assms(1)]
  by (auto simp: run_once_def Let_def split: sum.splits prod.splits option.splits if_splits)

lemma fetch_inner_effects:
  "fetch_rsp_daily_bars env symbol limit = (r, fx) \<Longrightarrow>
     list_all (\<lambda>x. \<not> is_boundary_catch x \<and> \<not> is_sleep x) fx"
  by (auto simp: fetch_rsp_daily_bars_def Let_def
      split: if_splits sum.splits bars_field.splits)

lemma compute_moving_average_inner_effects:
  "compute_moving_average bars window = (r, fx) \<Longrightarrow>
     list_all (\<lambda>x. \<not> is_boundary_catch x \<and> \<not> is_sleep x) fx"
  by (auto simp: compute_moving_average_def Let_def split: if_splits sum.splits)

lemma classify_trend_inner_effects:
  "classify_trend p m = (r, fx) \<Longrightarrow>
     list_all (\<lambda>x. \<not> is_boundary_catch x \<and> \<not> is_sleep x) fx"
  by (auto simp: classify_trend_def Let_def split: sum.splits)

lemma update_dashboard_cell_inner_effects:
  "update_dashboard_cell cfg env ws v = (r, fx) \<Longrightarrow>
     list_all (\<lambda>x. \<not> is_boundary_catch x \<and> \<not> is_sleep x) fx"
  by (auto simp: update_dashboard_cell_def Let_def split: option.splits)

lemma run_once_inner_effects:
  "list_all (\<lambda>x. \<not> is_boundary_catch x \<and> \<not> is_sleep x) (snd (run_once cfg env))"
  using fetch_inner_effects compute_moving_average_inner_effects
    classify_trend_inner_effects update_dashboard_cell_inner_effects
  by (auto simp: run_once_def Let_def split: sum.splits prod.splits option.splits if_splits)

lemma run_once_no_catch: "filter is_boundary_catch (snd (run_once cfg env)) = []"
  using run_once_inner_effects [of cfg env] by (simp add: filter_empty_conv list_all_iff)

lemma run_once_no_sleep: "filter is_sleep (snd (run_once cfg env)) = []"
  using run_once_inner_effects [of cfg env] by (simp add: filter_empty_conv list_all_iff)

lemma run_once_acell_Exception:
  assumes "ws_acell env = Inl e" and "is_Exception e"
  shows "run_once cfg env = run_once cfg (env\<lparr>ws_acell := Inr None\<rparr>)"
proof -
  let ?env = "env\<lparr>ws_acell := Inr None\<rparr>"
  have "get_gspread_client ?env = get_gspread_client env"
    by (simp add: get_gspread_client_def)
  moreover have "get_dashboard_worksheet ?env = get_dashboard_worksheet env"
    by (simp add: get_dashboard_worksheet_def fun_eq_iff)
  moreover have "fetch_rsp_daily_bars ?env = fetch_rsp_daily_bars env"
    by (simp add: fetch_rsp_daily_bars_def fun_eq_iff)
  moreover have "update_dashboard_cell cfg ?env = update_dashboard_cell cfg env"
    by (simp add: update_dashboard_cell_def fun_eq_iff)
  ultimately show ?thesis
    using assms
    by (simp add: run_once_def Let_def
        cong: sum.case_cong prod.case_cong option.case_cong if_cong)
qed

lemma main_iteration_shape:
  assumes "no_exit_signal env" and "os_sleep env = None"
    and "sleep_accepts (refresh_interval_seconds cfg)"
  shows "main_iteration cfg env =
           (None,
            snd (run_once cfg env)
            @ (case fst (run_once cfg env) of
                 Inl e \<Rightarrow> [Log ERROR (UnexpectedError e)]
               | Inr u \<Rightarrow> [])
            @ [Log INFO (SleepingFor (refresh_interval_seconds cfg)),
               Sleep (refresh_interval_seconds cfg)])"
proof -
  have sl: "time_sleep env (refresh_interval_seconds cfg) =
              (None, [Sleep (refresh_interval_seconds cfg)])"
    using assms(2,3) by (simp add: time_sleep_def sleep_accepts_def)
  show ?thesis
  proof (cases "run_once cfg env")
    case (Pair r fx)
    show ?thesis
    proof (cases r)
      case (Inl e)
      with Pair assms(1) have "is_Exception e" by (intro run_once_Exception [of env cfg]) simp_all
      with Pair Inl sl show ?thesis by (simp add: main_iteration_def run_guarded_def)
    next
      case (Inr u)
      with Pair sl show ?thesis by (simp add: main_iteration_def run_guarded_def)
    qed
  qed
qed

lemma main_iteration_sleeps:
  assumes "no_exit_signal env" and "os_sleep env = None"
    and "sleep_accepts (refresh_interval_seconds cfg)"
  shows "length (filter is_sleep (snd (main_iteration cfg env))) = 1"
    and "length (filter is_boundary_catch (snd (main_iteration cfg env))) =
           (if isl (fst (run_once cfg env)) then 1 else 0)"
  by (simp_all add: main_iteration_shape [OF assms] run_once_no_sleep run_once_no_catch
      split: sum.splits)

lemma main_loop_shape:
  assumes "\<forall>k. no_exit_signal (envs k)" and "\<forall>k. os_sleep (envs k) = None"
    and "sleep_accepts (refresh_interval_seconds cfg)"
  shows "main_loop cfg envs i n =
           (None, concat (map (\<lambda>k. snd (main_iteration cfg (envs k))) [i..<i + n]))"
proof (induction n arbitrary: i)
  case 0
  show ?case by simp
next
  case (Suc n)
  have "no_exit_signal (envs i)" and "os_sleep (envs i) = None"
    using assms(1,2) by simp_all
  from main_iteration_shape [OF this assms(3)]
  obtain fx where it: "main_iteration cfg (envs i) = (None, fx)"
    by blast
  have step: "main_loop cfg envs i (Suc n) =
      (None, fx @ concat (map (\<lambda>k. snd (main_iteration cfg (envs k))) [Suc i..<Suc i + n]))"
    by (simp add: it Suc [of "Suc i"] del: upt_Suc)
  have "[i..<i + Suc n] = i # [Suc i..<Suc i + n]"
    by (simp add: upt_conv_Cons del: upt_Suc)
  with step it show ?case by (simp del: upt_Suc)
qed

lemma main_loop_sleeps:
  assumes "\<forall>k. no_exit_signal (envs k)" and "\<forall>k. os_sleep (envs k) = None"
    and "sleep_accepts (refresh_interval_seconds cfg)"
  shows "length (filter is_sleep (snd (main_loop cfg envs i n))) = n"
proof -
  have "length (filter is_sleep (concat (map (\<lambda>k. snd (main_iteration cfg (envs k))) ks)))
          = length ks" for ks
    using assms by (induction ks) (simp_all add: main_iteration_sleeps(1))
  from this [of "[i..<i + n]"] show ?thesis
    by (simp add: main_loop_shape [OF assms])
qed

subsection \<open>The sample cycles, evaluated\<close>

lemmas cycle_defs =
  run_once_def get_gspread_client_def get_dashboard_worksheet_def fetch_rsp_daily_bars_def
  py_sorted_by_t_def compute_moving_average_def py_slice_from_def py_sum_def
  int_to_float_def float_truediv_def classify_trend_def update_dashboard_cell_def py_not_def
  env_ok_def sample_cfg_def sample_bars_def bar_tc_def Let_def

lemma run_once_sample:
  "run_once sample_cfg (env_ok (BarsList sample_bars)) =
     (Inr (),
      [Log INFO StartingCycle,
       Log INFO (RequestingBars 960 ''RSP''), HttpGet ''RSP'' 960,
       Log INFO (ReceivedBars 3),
       Log WARNING (OnlyClosesAvailable 3 960), Log INFO (ComputedMA 3 (f64_lit 100 1)),
       Log INFO (LatestBar (f64_lit 110 1)),
       Log INFO (Classification (f64_lit 110 1) (f64_lit 100 1) (f64_lit 10 1) ''MODERATE''),
       AcellRead ''T3'', Log INFO (PreviousValue (Some ''STRONG'')),
       Log INFO (UpdatingCell ''MODERATE''), CellUpdate ''T3'' ''MODERATE'',
       Log INFO (FinishedCycle ''MODERATE'' (f64_lit 10 1))])"
  by (simp add: cycle_defs f64_eval)

lemma run_once_acell_fails:
  "run_once sample_cfg env_acell_fails =
     (Inr (),
      [Log INFO StartingCycle,
       Log INFO (RequestingBars 960 ''RSP''), HttpGet ''RSP'' 960,
       Log INFO (ReceivedBars 3),
       Log WARNING (OnlyClosesAvailable 3 960), Log INFO (ComputedMA 3 (f64_lit 100 1)),
       Log INFO (LatestBar (f64_lit 110 1)),
       Log INFO (Classification (f64_lit 110 1) (f64_lit 100 1) (f64_lit 10 1) ''MODERATE''),
       AcellRead ''T3'', Log INFO (PreviousValue None),
       Log INFO (UpdatingCell ''MODERATE''), CellUpdate ''T3'' ''MODERATE'',
       Log INFO (FinishedCycle ''MODERATE'' (f64_lit 10 1))])"
  by (simp add: env_acell_fails_def cycle_defs f64_eval)

lemma run_once_update_fails:
  "run_once sample_cfg env_update_fails =
     (Inl (LibraryError ''APIError''),
      [Log INFO StartingCycle,
       Log INFO (RequestingBars 960 ''RSP''), HttpGet ''RSP'' 960,
       Log INFO (ReceivedBars 3),
       Log WARNING (OnlyClosesAvailable 3 960), Log INFO (ComputedMA 3 (f64_lit 100 1)),
       Log INFO (LatestBar (f64_lit 110 1)),
       Log INFO (Classification (f64_lit 110 1) (f64_lit 100 1) (f64_lit 10 1) ''MODERATE''),
       AcellRead ''T3'', Log INFO (PreviousValue (Some ''STRONG'')),
       Log INFO (UpdatingCell ''MODERATE''), CellUpdate ''T3'' ''MODERATE''])"
  by (simp add: env_update_fails_def cycle_defs f64_eval)

lemma run_once_update_exits:
  "fst (run_once sample_cfg env_update_exits) = Inl SystemExit"
  by (simp add: env_update_exits_def cycle_defs f64_eval)

subsection \<open>The market-data helper, the cycle and the loop\<close>

text \<open>
  Claim C7, as the code has it. When the request is made with both credentials set and
  the upstream API answers, with a status outside 400 to 599, a non-empty list of bars
  each of which has its timestamp, in any order, \<open>fetch_rsp_daily_bars\<close> returns the
  same bars sorted ascending by timestamp. The last bar returned is a bar of the input
  whose timestamp is the latest of the input, and is the bar with the latest timestamp
  when only one bar has it.
\<close>

theorem fetch_rsp_daily_bars_sorted:
  assumes "\<not> py_not (alpaca_key env)" and "\<not> py_not (alpaca_secret env)"
    and "http_get env = Inr resp"
    and "\<not> (400 \<le> resp_status resp \<and> resp_status resp < 600)"
    and "resp_json resp = Inr (BarsList bars)"
    and "bars \<noteq> []"
    and "\<forall>b\<in>set bars. bar_t b \<noteq> None"
  shows "\<exists>bs. fst (fetch_rsp_daily_bars env symbol limit) = Inr bs
           \<and> mset bs = mset bars
           \<and> sorted (map (\<lambda>b. the (bar_t b)) bs)
           \<and> last bs \<in> set bars
           \<and> (\<forall>b\<in>set bars. the (bar_t b) \<le> the (bar_t (last bs)))
           \<and> the (bar_t (last bs)) = Max ((\<lambda>b. the (bar_t b)) ` set bars)
           \<and> (\<forall>b\<in>set bars.
                 (\<forall>b'\<in>set bars. b' \<noteq> b \<longrightarrow> the (bar_t b') < the (bar_t b))
                 \<longrightarrow> last bs = b)"
proof -
  let ?ts = "\<lambda>b. the (bar_t b)"
  let ?bs = "sort_key ?ts bars"
  have res: "fst (fetch_rsp_daily_bars env symbol limit) = Inr ?bs"
    using assms by (simp add: fetch_rsp_daily_bars_def Let_def py_sorted_by_t_ok)
  have ne: "?bs \<noteq> []" using assms(6) by (metis length_sort length_0_conv)
  have mem: "last ?bs \<in> set bars" using last_in_set [OF ne] by simp
  have ge: "\<forall>b\<in>set bars. ?ts b \<le> ?ts (last ?bs)"
  proof
    fix b assume "b \<in> set bars"
    with assms(6) show "?ts b \<le> ?ts (last ?bs)" by (rule sorted_last_ge)
  qed
  have mx: "?ts (last ?bs) = Max (?ts ` set bars)"
  proof (rule Max_eqI [symmetric])
    show "finite (?ts ` set bars)" by simp
    show "y \<le> ?ts (last ?bs)" if "y \<in> ?ts ` set bars" for y using that ge by auto
    show "?ts (last ?bs) \<in> ?ts ` set bars" using mem by blast
  qed
  have uniq: "last ?bs = b"
    if "b \<in> set bars" and "\<forall>b'\<in>set bars. b' \<noteq> b \<longrightarrow> ?ts b' < ?ts b" for b
  proof (rule ccontr)
    assume "last ?bs \<noteq> b"
    with that mem have "?ts (last ?bs) < ?ts b" by blast
    moreover from ge that(1) have "?ts b \<le> ?ts (last ?bs)" by blast
    ultimately show False by simp
  qed
  have perm: "mset ?bs = mset bars" by simp
  have srt: "sorted (map ?ts ?bs)" by (rule sorted_sort_key)
  show ?thesis
  proof (intro exI [of _ ?bs] conjI)
    show "\<forall>b\<in>set bars. (\<forall>b'\<in>set bars. b' \<noteq> b \<longrightarrow> ?ts b' < ?ts b) \<longrightarrow> last ?bs = b"
      using uniq by blast
  qed (fact res perm srt mem ge mx)+
qed

theorem fetch_rsp_daily_bars_sorted_witness:
  "\<not> py_not (alpaca_key (env_ok (BarsList sample_bars)))
   \<and> \<not> py_not (alpaca_secret (env_ok (BarsList sample_bars)))
   \<and> sample_bars \<noteq> []
   \<and> list_all (\<lambda>b. bar_t b \<noteq> None) sample_bars
   \<and> fst (fetch_rsp_daily_bars (env_ok (BarsList sample_bars)) ''RSP'' 960)
       = Inr [bar_tc 1 (Some (JInt 90)), bar_tc 2 (Some (JFloat (f64_lit 100 1))),
              bar_tc 3 (Some (JInt 110))]
   \<and> (\<exists>bs. fst (fetch_rsp_daily_bars (env_ok (BarsList sample_bars)) ''RSP'' 960) = Inr bs
          \<and> last bs = bar_tc 3 (Some (JInt 110)))"
proof -
  let ?resp = "\<lparr>resp_status = 200, resp_text = [], resp_json = Inr (BarsList sample_bars)\<rparr>"
  have 1: "\<not> py_not (alpaca_key (env_ok (BarsList sample_bars)))"
    and 2: "\<not> py_not (alpaca_secret (env_ok (BarsList sample_bars)))"
    and 3: "http_get (env_ok (BarsList sample_bars)) = Inr ?resp"
    and 4: "\<not> (400 \<le> resp_status ?resp \<and> resp_status ?resp < 600)"
    and 5: "resp_json ?resp = Inr (BarsList sample_bars)"
    and 6: "sample_bars \<noteq> []"
    and 7: "\<forall>b\<in>set sample_bars. bar_t b \<noteq> None"
    by (simp_all add: env_ok_def py_not_def sample_bars_def bar_tc_def)
  have 8: "bar_tc 3 (Some (JInt 110)) \<in> set sample_bars"
    and 9: "\<forall>b'\<in>set sample_bars. b' \<noteq> bar_tc 3 (Some (JInt 110))
             \<longrightarrow> the (bar_t b') < the (bar_t (bar_tc (3::nat) (Some (JInt 110))))"
    by (simp_all add: sample_bars_def bar_tc_def)
  have ev: "fst (fetch_rsp_daily_bars (env_ok (BarsList sample_bars)) ''RSP'' 960)
       = Inr [bar_tc 1 (Some (JInt 90)), bar_tc 2 (Some (JFloat (f64_lit 100 1))),
              bar_tc 3 (Some (JInt 110))]"
    by (simp add: fetch_rsp_daily_bars_def env_ok_def py_not_def py_sorted_by_t_def
        sample_bars_def bar_tc_def Let_def)
  from fetch_rsp_daily_bars_sorted [OF 1 2 3 4 5 6 7, of "''RSP''" 960]
  obtain bs where
    "fst (fetch_rsp_daily_bars (env_ok (BarsList sample_bars)) ''RSP'' 960) = Inr bs"
    and "\<forall>b\<in>set sample_bars.
           (\<forall>b'\<in>set sample_bars. b' \<noteq> b \<longrightarrow> the (bar_t b') < the (bar_t b))
           \<longrightarrow> last bs = b"
    by blast
  with 8 9 have "\<exists>bs. fst (fetch_rsp_daily_bars (env_ok (BarsList sample_bars)) ''RSP'' 960) = Inr bs
      \<and> last bs = bar_tc 3 (Some (JInt 110))"
    by (intro exI [of _ bs]) blast
  moreover have "list_all (\<lambda>b. bar_t b \<noteq> None) sample_bars"
    using 7 by (simp add: list_all_iff)
  ultimately show ?thesis
    using 1 2 6 ev by blast
qed

text \<open>
  Claim C7 as it is worded covers every non-empty list of bars the upstream API returns.
  It fails on a list of two bars one of which has no timestamp: the sort compares
  \<open>None\<close> with a timestamp and raises \<open>TypeError\<close>, and no series is returned.
\<close>

theorem fetch_rsp_daily_bars_sorted_counterexample:
  "\<not> py_not (alpaca_key (env_ok (BarsList no_timestamp_bars)))
   \<and> \<not> py_not (alpaca_secret (env_ok (BarsList no_timestamp_bars)))
   \<and> http_get (env_ok (BarsList no_timestamp_bars)) =
       Inr \<lparr>resp_status = 200, resp_text = [], resp_json = Inr (BarsList no_timestamp_bars)\<rparr>
   \<and> no_timestamp_bars \<noteq> []
   \<and> fetch_rsp_daily_bars (env_ok (BarsList no_timestamp_bars)) ''RSP'' 960 =
       (Inl TypeError,
        [Log INFO (RequestingBars 960 ''RSP''), HttpGet ''RSP'' 960, Log INFO (ReceivedBars 2)])"
  by (simp add: fetch_rsp_daily_bars_def env_ok_def py_not_def py_sorted_by_t_def
      no_timestamp_bars_def bar_tc_def Let_def)

text \<open>
  Claim C8. In a cycle in which the fetch succeeds and returns no bars, \<open>run_once\<close>
  returns normally after the fetch: it issues no cell update, computes no moving average,
  and no exception reaches the handler of the loop.
\<close>

theorem run_once_no_bars:
  assumes "get_gspread_client env = Inr client"
    and "get_dashboard_worksheet env client = Inr ws"
    and "fst (fetch_rsp_daily_bars env (alpaca_symbol cfg) (ma_window cfg)) = Inr []"
  shows "run_once cfg env =
           (Inr (),
            [Log INFO StartingCycle,
             Log INFO (RequestingBars (ma_window cfg) (alpaca_symbol cfg)),
             HttpGet (alpaca_symbol cfg) (ma_window cfg),
             Log INFO (ReceivedBars 0),
             Log WARNING NoBarsReturned,
             Log ERROR NoBarsSkipping])
         \<and> filter is_cell_update (snd (run_once cfg env)) = []
         \<and> filter is_computed_ma (snd (run_once cfg env)) = []
         \<and> run_guarded cfg env = (None, snd (run_once cfg env))"
proof -
  obtain r fx where f: "fetch_rsp_daily_bars env (alpaca_symbol cfg) (ma_window cfg) = (r, fx)"
    by (cases "fetch_rsp_daily_bars env (alpaca_symbol cfg) (ma_window cfg)")
  with assms(3) have r: "r = Inr []" by simp
  from fetch_no_bars_effects [OF assms(3)] f
  have fx: "fx = [Log INFO (RequestingBars (ma_window cfg) (alpaca_symbol cfg)),
                  HttpGet (alpaca_symbol cfg) (ma_window cfg),
                  Log INFO (ReceivedBars 0), Log WARNING NoBarsReturned]"
    by simp
  have run: "run_once cfg env =
           (Inr (),
            [Log INFO StartingCycle,
             Log INFO (RequestingBars (ma_window cfg) (alpaca_symbol cfg)),
             HttpGet (alpaca_symbol cfg) (ma_window cfg),
             Log INFO (ReceivedBars 0),
             Log WARNING NoBarsReturned,
             Log ERROR NoBarsSkipping])"
    using assms(1,2) f r fx by (simp add: run_once_def)
  then show ?thesis by (simp add: run_guarded_def)
qed

theorem run_once_no_bars_witness:
  "get_gspread_client (env_ok (BarsList [])) = Inr ()
   \<and> get_dashboard_worksheet (env_ok (BarsList [])) () = Inr ()
   \<and> fst (fetch_rsp_daily_bars (env_ok (BarsList [])) (alpaca_symbol sample_cfg)
            (ma_window sample_cfg)) = Inr []
   \<and> run_once sample_cfg (env_ok (BarsList [])) =
           (Inr (),
            [Log INFO StartingCycle, Log INFO (RequestingBars 960 ''RSP''),
             HttpGet ''RSP'' 960, Log INFO (ReceivedBars 0),
             Log WARNING NoBarsReturned, Log ERROR NoBarsSkipping])"
proof -
  have 1: "get_gspread_client (env_ok (BarsList [])) = Inr ()"
    by (simp add: get_gspread_client_def env_ok_def py_not_def)
  have 2: "get_dashboard_worksheet (env_ok (BarsList [])) () = Inr ()"
    by (simp add: get_dashboard_worksheet_def env_ok_def)
  have 3: "fst (fetch_rsp_daily_bars (env_ok (BarsList [])) (alpaca_symbol sample_cfg)
            (ma_window sample_cfg)) = Inr []"
    by (simp add: fetch_rsp_daily_bars_def env_ok_def py_not_def Let_def)
  from run_once_no_bars [OF 1 2 3] 1 2 3 show ?thesis
    by (simp add: sample_cfg_def)
qed

text \<open>
  Claim C9, as the code has it. As long as no external call of a cycle raises
  \<open>KeyboardInterrupt\<close> or \<open>SystemExit\<close>, the sleep of the operating system raises
  nothing and the configured interval is one that \<open>time.sleep\<close> accepts (0 to
  9223372036 seconds): every exception
  that leaves the cycle body (a failed publish among them) is caught by the handler of
  the loop, exactly once; the loop then logs, sleeps for the configured interval and
  starts the next cycle, so that after any number of iterations the process is still
  running and has slept once per iteration. An exception raised by the read of the
  previous cell value does not leave the cycle body: the cycle is, result and effects,
  the cycle in which the read returns no value.
\<close>

theorem main_loop_never_exits:
  assumes "\<forall>k. no_exit_signal (envs k)" and "\<forall>k. os_sleep (envs k) = None"
    and "sleep_accepts (refresh_interval_seconds cfg)"
  shows "fst (main_loop cfg envs i n) = None
         \<and> snd (main_loop cfg envs i n) =
             concat (map (\<lambda>k. snd (run_once cfg (envs k))
                               @ (case fst (run_once cfg (envs k)) of
                                    Inl e \<Rightarrow> [Log ERROR (UnexpectedError e)]
                                  | Inr u \<Rightarrow> [])
                               @ [Log INFO (SleepingFor (refresh_interval_seconds cfg)),
                                  Sleep (refresh_interval_seconds cfg)])
                         [i..<i + n])
         \<and> length (filter is_sleep (snd (main_loop cfg envs i n))) = n
         \<and> (\<forall>k. length (filter is_boundary_catch (snd (main_iteration cfg (envs k)))) =
                  (if isl (fst (run_once cfg (envs k))) then 1 else 0))
         \<and> (\<forall>k e. ws_acell (envs k) = Inl e \<longrightarrow>
                  run_once cfg (envs k) = run_once cfg ((envs k)\<lparr>ws_acell := Inr None\<rparr>))"
proof -
  have hyp: "no_exit_signal (envs k)" "os_sleep (envs k) = None" for k
    using assms(1,2) by simp_all
  have shape: "snd (main_iteration cfg (envs k)) =
      snd (run_once cfg (envs k))
      @ (case fst (run_once cfg (envs k)) of
           Inl e \<Rightarrow> [Log ERROR (UnexpectedError e)]
         | Inr u \<Rightarrow> [])
      @ [Log INFO (SleepingFor (refresh_interval_seconds cfg)),
         Sleep (refresh_interval_seconds cfg)]" for k
    using main_iteration_shape [OF hyp assms(3), of k] by simp
  have "main_loop cfg envs i n =
          (None, concat (map (\<lambda>k. snd (main_iteration cfg (envs k))) [i..<i + n]))"
    using assms by (rule main_loop_shape)
  then have "fst (main_loop cfg envs i n) = None"
    and "snd (main_loop cfg envs i n) =
          concat (map (\<lambda>k. snd (main_iteration cfg (envs k))) [i..<i + n])"
    by simp_all
  moreover have "length (filter is_sleep (snd (main_loop cfg envs i n))) = n"
    using assms by (rule main_loop_sleeps)
  moreover have "\<forall>k. length (filter is_boundary_catch (snd (main_iteration cfg (envs k)))) =
                  (if isl (fst (run_once cfg (envs k))) then 1 else 0)"
    using main_iteration_sleeps(2) [OF hyp assms(3)] by blast
  moreover have "\<forall>k e. ws_acell (envs k) = Inl e \<longrightarrow>
                  run_once cfg (envs k) = run_once cfg ((envs k)\<lparr>ws_acell := Inr None\<rparr>)"
    using run_once_acell_Exception ws_acell_Exception [OF hyp(1)] by blast
  ultimately show ?thesis by (simp only: shape) simp
qed

theorem main_loop_never_exits_witness:
  "(\<forall>k. no_exit_signal (envs_update_fails_once k))
   \<and> (\<forall>k. os_sleep (envs_update_fails_once k) = None)
   \<and> sleep_accepts (refresh_interval_seconds sample_cfg)
   \<and> fst (run_once sample_cfg (envs_update_fails_once 0)) = Inl (LibraryError ''APIError'')
   \<and> fst (main_loop sample_cfg envs_update_fails_once 0 2) = None
   \<and> filter (\<lambda>x. is_boundary_catch x \<or> is_sleep x \<or> is_cell_update x)
         (snd (main_loop sample_cfg envs_update_fails_once 0 2)) =
       [CellUpdate ''T3'' ''MODERATE'',
        Log ERROR (UnexpectedError (LibraryError ''APIError'')),
        Sleep 3600,
        CellUpdate ''T3'' ''MODERATE'',
        Sleep 3600]"
proof -
  have h: "\<forall>k. no_exit_signal (envs_update_fails_once k)"
    by (simp add: envs_update_fails_once_def env_update_fails_def env_ok_def
        no_exit_signal_def)
  have s: "\<forall>k. os_sleep (envs_update_fails_once k) = None"
    by (simp add: envs_update_fails_once_def env_update_fails_def env_ok_def)
  have a: "sleep_accepts (refresh_interval_seconds sample_cfg)"
    by (simp add: sleep_accepts_def sample_cfg_def)
  have r: "[0..<0 + 2] = [0, Suc 0]"
    by (simp add: upt_conv_Cons)
  have e: "envs_update_fails_once 0 = env_update_fails"
    "envs_update_fails_once (Suc 0) = env_ok (BarsList sample_bars)"
    by (simp_all add: envs_update_fails_once_def)
  from main_loop_never_exits [OF h s a, of 0 2]
  have "fst (main_loop sample_cfg envs_update_fails_once 0 2) = None"
    and "snd (main_loop sample_cfg envs_update_fails_once 0 2) =
             concat (map (\<lambda>k. snd (run_once sample_cfg (envs_update_fails_once k))
                               @ (case fst (run_once sample_cfg (envs_update_fails_once k)) of
                                    Inl e \<Rightarrow> [Log ERROR (UnexpectedError e)]
                                  | Inr u \<Rightarrow> [])
                               @ [Log INFO (SleepingFor (refresh_interval_seconds sample_cfg)),
                                  Sleep (refresh_interval_seconds sample_cfg)])
                         [0..<0 + 2])"
    by blast+
  with h s a show ?thesis
    by (simp only: r e list.map concat.simps run_once_update_fails run_once_sample)
      (simp add: sample_cfg_def)
qed

text \<open>
  Claim C9 as it is worded covers every exception raised anywhere inside the cycle body,
  and every run of the loop. An exception raised by the read of the previous cell value
  is raised inside the cycle body, but \<open>run_once\<close> catches it itself and goes on to
  publish: the handler of the loop never sees it. With an interval of \<open>-1\<close> the first
  cycle succeeds and \<open>time.sleep\<close> then raises \<open>ValueError\<close> outside the \<open>try\<close>: the
  process ends without having slept. And a \<open>SystemExit\<close> raised inside the cycle body
  passes the handler and ends the process.
\<close>

theorem main_loop_catch_counterexample:
  "ws_acell env_acell_fails = Inl (LibraryError ''APIError'')
   \<and> is_Exception (LibraryError ''APIError'')
   \<and> AcellRead ''T3'' \<in> set (snd (run_once sample_cfg env_acell_fails))
   \<and> fst (run_once sample_cfg env_acell_fails) = Inr ()
   \<and> filter is_boundary_catch (snd (main_iteration sample_cfg env_acell_fails)) = []
   \<and> fst (main_loop negative_interval_cfg (\<lambda>k. env_ok (BarsList sample_bars)) 0 1)
       = Some ValueError
   \<and> filter is_sleep (snd (main_loop negative_interval_cfg (\<lambda>k. env_ok (BarsList sample_bars)) 0 1))
       = []
   \<and> fst (main_loop sample_cfg (\<lambda>k. env_update_exits) 0 1) = Some SystemExit"
proof -
  have 1: "ws_acell env_acell_fails = Inl (LibraryError ''APIError'')"
    by (simp add: env_acell_fails_def env_ok_def)
  have os: "os_sleep env_acell_fails = None"
    and iv: "refresh_interval_seconds sample_cfg = 3600"
    by (simp_all add: env_acell_fails_def env_ok_def sample_cfg_def)
  have 2: "AcellRead ''T3'' \<in> set (snd (run_once sample_cfg env_acell_fails))"
    and 3: "fst (run_once sample_cfg env_acell_fails) = Inr ()"
    and 4: "filter is_boundary_catch (snd (main_iteration sample_cfg env_acell_fails)) = []"
    by (simp_all add: run_once_acell_fails main_iteration_def run_guarded_def time_sleep_def
        os iv)
  have 5: "fst (main_loop negative_interval_cfg (\<lambda>k. env_ok (BarsList sample_bars)) 0 1)
       = Some ValueError"
    and 6: "filter is_sleep
       (snd (main_loop negative_interval_cfg (\<lambda>k. env_ok (BarsList sample_bars)) 0 1)) = []"
    by (simp_all add: One_nat_def main_iteration_def run_guarded_def time_sleep_def
        negative_interval_cfg_def cycle_defs f64_eval)
  have 7: "fst (main_loop sample_cfg (\<lambda>k. env_update_exits) 0 1) = Some SystemExit"
    using run_once_update_exits
    by (cases "run_once sample_cfg env_update_exits")
      (simp add: One_nat_def main_iteration_def run_guarded_def)
  from 1 2 3 4 5 6 7 show ?thesis by simp
qed

end
